theory Spec2Isabelle
  imports Main "HOL-Library.Sublist" "HOL-Library.Word"
begin

section \<open>A shallow embedding of the gnuplot session class (gnuplot\_i.hpp)\<close>

text \<open>
  The class \<open>Gnuplot\<close> owns a pipe to a child gnuplot process, a few fields of plot-mode
  state and a list of temporary files; four static members are shared by all sessions.
  Member functions become functions on a \<open>session\<close> record (the object) and a \<open>world\<close>
  record (the static members and the file system). A C++ exception is the \<open>Inl\<close> branch
  of a result, returned together with the session and the world as they are at the
  \<open>throw\<close>, so that what a failed call has already changed stays visible.

  The model's assumptions about what lies outside the source:
  \<^item> \<open>nplots\<close> is a 32-bit word read as two's complement (\<open>sint\<close>): \<open>nplots++\<close> at
    \<open>INT_MAX\<close>, undefined in C++, wraps to \<open>INT_MIN\<close> as the machine does;
    \<open>tmpfile_num\<close> stays between small bounds and is a HOL integer;
  \<^item> \<open>fputs\<close> and \<open>fflush\<close> on the pipe succeed (their results are ignored by the source);
  \<^item> a file system is a map from path to file; \<open>access\<close>, \<open>remove\<close>, \<open>mkstemp\<close> and the
    stream library follow POSIX and the C++ standard as written out below.
\<close>

subsection \<open>Strings\<close>

text \<open>
  \<open>std::string::c_str()\<close> handed to a C function: the C function reads up to the first
  NUL character.
\<close>

definition c_str :: "string \<Rightarrow> string" where
  "c_str s = takeWhile (\<lambda>c. c \<noteq> CHR 0x00) s"

text \<open>
  \<open>s.find(pat)\<close> for a \<open>std::string\<close> \<open>s\<close>: the position of the first occurrence of
  \<open>pat\<close>, \<open>None\<close> standing for \<open>std::string::npos\<close>.
\<close>

primrec str_find :: "string \<Rightarrow> string \<Rightarrow> nat option" where
  "str_find [] pat = (if pat = [] then Some 0 else None)"
| "str_find (c # cs) pat =
     (if prefix pat (c # cs) then Some 0 else map_option Suc (str_find cs pat))"

text \<open>The character \<open>"\<close>, written \<open>\"\<close> in the source's string literals.\<close>

definition dq :: string where
  "dq = [CHR 0x22]"

text \<open>\<open>std::endl\<close> and \<open>"\n"\<close>.\<close>

definition nl :: string where
  "nl = [CHR 0x0A]"

text \<open>\<open>operator<<\<close> of an output stream on an \<open>unsigned int\<close>: decimal digits.\<close>

definition digit :: "nat \<Rightarrow> char" where
  "digit d = ''0123456789'' ! d"

fun decimal :: "nat \<Rightarrow> string" where
  "decimal n = (if n < 10 then [digit n] else decimal (n div 10) @ [digit (n mod 10)])"

declare decimal.simps [simp del]

definition show_unsigned :: "32 word \<Rightarrow> string" where
  "show_unsigned u = decimal (unat u)"

subsection \<open>The object and the process-wide state\<close>

datatype platform = Windows | Posix

definition GP_MAX_TMP_FILES :: "platform \<Rightarrow> int" where
  "GP_MAX_TMP_FILES p = (case p of Windows \<Rightarrow> 27 | Posix \<Rightarrow> 64)"

datatype exn = GnuplotException string | runtime_error string

record disk_file =
  content :: string
  perm_r :: bool
  perm_w :: bool
  perm_x :: bool

text \<open>
  The non-static members of \<open>Gnuplot\<close>. \<open>gnucmd\<close> is the pipe (a \<open>FILE *\<close>); the model
  keeps the bytes written to it so far.
\<close>

record session =
  gnucmd :: string
  valid :: bool
  two_dim :: bool
  nplots :: "32 word"
  pstyle :: string
  smooth :: string
  tmpfile_list :: "string list"

text \<open>The static members of \<open>Gnuplot\<close>, and the files of the file system.\<close>

record world =
  tmpfile_num :: int
  m_sGNUPlotFileName :: string
  m_sGNUPlotPath :: string
  terminal_std :: string
  files :: "string \<rightharpoonup> disk_file"

subsection \<open>Gnuplot::cmd\<close>

definition cmd :: "string \<Rightarrow> session \<Rightarrow> session" where
  "cmd cmdstr s =
     (if \<not> valid s then s
      else
        let s1 = s\<lparr>gnucmd := gnucmd s @ c_str (cmdstr @ nl)\<rparr>
        in if str_find cmdstr ''replot'' \<noteq> None then s1
           else if str_find cmdstr ''splot'' \<noteq> None
             then s1\<lparr>two_dim := False, nplots := nplots s1 + 1\<rparr>
           else if str_find cmdstr ''plot'' \<noteq> None
             then s1\<lparr>two_dim := True, nplots := nplots s1 + 1\<rparr>
           else s1)"

subsection \<open>Gnuplot::set\_style and Gnuplot::set\_smooth\<close>

definition set_style :: "string \<Rightarrow> session \<Rightarrow> session" where
  "set_style stylestr s =
     (if pstyle s \<noteq> stylestr \<and> stylestr \<noteq> [] then s\<lparr>pstyle := stylestr\<rparr> else s)"

definition set_smooth :: "string \<Rightarrow> session \<Rightarrow> session" where
  "set_smooth stylestr s =
     (if str_find stylestr ''unique'' = None \<and>
         str_find stylestr ''frequency'' = None \<and>
         str_find stylestr ''csplines'' = None \<and>
         str_find stylestr ''bezier'' = None
      then s\<lparr>smooth := []\<rparr>
      else s\<lparr>smooth := stylestr\<rparr>)"

subsection \<open>Gnuplot::file\_exists and Gnuplot::file\_available\<close>

text \<open>
  \<open>access(path, mode)\<close>: the file exists and grants every permission whose bit is set in
  \<open>mode\<close> (1 execute, 2 write, 4 read; 0 asks for existence only).
\<close>

definition c_access :: "world \<Rightarrow> string \<Rightarrow> int \<Rightarrow> bool" where
  "c_access w path mode =
     (case files w path of
        None \<Rightarrow> False
      | Some f \<Rightarrow>
          (mode mod 2 = 0 \<or> perm_x f) \<and>
          (mode div 2 mod 2 = 0 \<or> perm_w f) \<and>
          (mode div 4 mod 2 = 0 \<or> perm_r f))"

definition file_exists :: "world \<Rightarrow> string \<Rightarrow> int \<Rightarrow> exn + bool" where
  "file_exists w filename mode =
     (if mode < 0 \<or> mode > 7
      then Inl (runtime_error (''In function '' @ dq @ ''Gnuplot::file_exists'' @ dq @
                  '': mode                has to be an integer between 0 and 7''))
      else Inr (c_access w (c_str filename) mode))"

definition file_available :: "world \<Rightarrow> string \<Rightarrow> exn + bool" where
  "file_available w filename =
     (case file_exists w filename 0 of
        Inl e \<Rightarrow> Inl e
      | Inr True \<Rightarrow>
          (case file_exists w filename 4 of
             Inl e \<Rightarrow> Inl e
           | Inr False \<Rightarrow>
               Inl (GnuplotException (''No read permission for File '' @ dq @ filename @ dq))
           | Inr True \<Rightarrow> Inr True)
      | Inr False \<Rightarrow>
          Inl (GnuplotException (''File '' @ dq @ filename @ dq @ '' does not exist'')))"

subsection \<open>The file plotters\<close>

text \<open>
  Each builds the command in an \<open>ostringstream\<close> and hands it to \<open>cmd\<close>. The exception
  of \<open>file_available\<close> leaves before the object is touched.
\<close>

definition plotfile_x ::
  "string \<Rightarrow> 32 word \<Rightarrow> string \<Rightarrow> session \<Rightarrow> world \<Rightarrow> (exn + unit) \<times> session" where
  "plotfile_x filename column title s w =
     (case file_available w filename of
        Inl e \<Rightarrow> (Inl e, s)
      | Inr _ \<Rightarrow>
          let c0 = (if sint (nplots s) > 0 \<and> two_dim s = True then ''replot '' else ''plot '');
              c1 = c0 @ dq @ filename @ dq @ '' using '' @ show_unsigned column;
              c2 = (if title = [] then c1 @ '' notitle ''
                    else c1 @ '' title '' @ dq @ title @ dq @ '' '');
              c3 = (if smooth s = [] then c2 @ ''with '' @ pstyle s
                    else c2 @ ''smooth '' @ smooth s)
          in (Inr (), cmd c3 s))"

definition plotfile_xy ::
  "string \<Rightarrow> 32 word \<Rightarrow> 32 word \<Rightarrow> string \<Rightarrow> session \<Rightarrow> world
     \<Rightarrow> (exn + unit) \<times> session" where
  "plotfile_xy filename column_x column_y title s w =
     (case file_available w filename of
        Inl e \<Rightarrow> (Inl e, s)
      | Inr _ \<Rightarrow>
          let c0 = (if sint (nplots s) > 0 \<and> two_dim s = True then ''replot '' else ''plot '');
              c1 = c0 @ dq @ filename @ dq @ '' using '' @ show_unsigned column_x @ '':'' @
                     show_unsigned column_y;
              c2 = (if title = [] then c1 @ '' notitle ''
                    else c1 @ '' title '' @ dq @ title @ dq @ '' '');
              c3 = (if smooth s = [] then c2 @ ''with '' @ pstyle s
                    else c2 @ ''smooth '' @ smooth s)
          in (Inr (), cmd c3 s))"

definition plotfile_xy_err ::
  "string \<Rightarrow> 32 word \<Rightarrow> 32 word \<Rightarrow> 32 word \<Rightarrow> string \<Rightarrow> session \<Rightarrow> world
     \<Rightarrow> (exn + unit) \<times> session" where
  "plotfile_xy_err filename column_x column_y column_dy title s w =
     (case file_available w filename of
        Inl e \<Rightarrow> (Inl e, s)
      | Inr _ \<Rightarrow>
          let c0 = (if sint (nplots s) > 0 \<and> two_dim s = True then ''replot '' else ''plot '');
              c1 = c0 @ dq @ filename @ dq @ '' using '' @ show_unsigned column_x @ '':'' @
                     show_unsigned column_y @ '':'' @ show_unsigned column_dy @
                     '' with errorbars '';
              c2 = (if title = [] then c1 @ '' notitle ''
                    else c1 @ '' title '' @ dq @ title @ dq @ '' '')
          in (Inr (), cmd c2 s))"

definition plotfile_xyz ::
  "string \<Rightarrow> 32 word \<Rightarrow> 32 word \<Rightarrow> 32 word \<Rightarrow> string \<Rightarrow> session \<Rightarrow> world
     \<Rightarrow> (exn + unit) \<times> session" where
  "plotfile_xyz filename column_x column_y column_z title s w =
     (case file_available w filename of
        Inl e \<Rightarrow> (Inl e, s)
      | Inr _ \<Rightarrow>
          let c0 = (if sint (nplots s) > 0 \<and> two_dim s = False then ''replot '' else ''splot '');
              c1 = c0 @ dq @ filename @ dq @ '' using '' @ show_unsigned column_x @ '':'' @
                     show_unsigned column_y @ '':'' @ show_unsigned column_z;
              c2 = (if title = [] then c1 @ '' notitle with '' @ pstyle s
                    else c1 @ '' title '' @ dq @ title @ dq @ '' with '' @ pstyle s)
          in (Inr (), cmd c2 s))"

subsection \<open>Gnuplot::set\_GNUPlotPath\<close>

definition set_GNUPlotPath :: "platform \<Rightarrow> string \<Rightarrow> world \<Rightarrow> (exn + bool) \<times> world" where
  "set_GNUPlotPath p path w =
     (let tmp = path @ ''/'' @ m_sGNUPlotFileName w
      in case file_exists w tmp (case p of Windows \<Rightarrow> 0 | Posix \<Rightarrow> 1) of
           Inl e \<Rightarrow> (Inl e, w)
         | Inr True \<Rightarrow> (Inr True, w\<lparr>m_sGNUPlotPath := path\<rparr>)
         | Inr False \<Rightarrow> (Inr False, w\<lparr>m_sGNUPlotPath := []\<rparr>))"

subsection \<open>Output file streams\<close>

text \<open>
  A \<open>std::ofstream\<close>: whether a file is open, its path, and the two error bits the
  source can observe. As the C++ standard has it, \<open>open\<close> that fails sets \<open>failbit\<close>
  (not \<open>badbit\<close>) and \<open>open\<close> that succeeds clears the state; \<open>bad()\<close> reads
  \<open>badbit\<close> alone; an insertion into a stream that is not good writes nothing.
  Whether the operating system lets the file be opened is an input of the model.
\<close>

record ofstream =
  is_open :: bool
  target :: string
  failbit :: bool
  badbit :: bool

definition ofstream_new :: ofstream where
  "ofstream_new = \<lparr>is_open = False, target = [], failbit = False, badbit = False\<rparr>"

definition fresh_file :: disk_file where
  "fresh_file = \<lparr>content = [], perm_r = True, perm_w = True, perm_x = False\<rparr>"

definition ofstream_open ::
  "string \<Rightarrow> bool \<Rightarrow> ofstream \<times> world \<Rightarrow> ofstream \<times> world" where
  "ofstream_open name os_ok tw =
     (case tw of (tmp, w) \<Rightarrow>
        if \<not> is_open tmp \<and> os_ok
        then (tmp\<lparr>is_open := True, target := name, failbit := False, badbit := False\<rparr>,
              w\<lparr>files := (files w)(name \<mapsto>
                   (case files w name of
                      None \<Rightarrow> fresh_file
                    | Some f \<Rightarrow> f\<lparr>content := []\<rparr>))\<rparr>)
        else (tmp\<lparr>failbit := True\<rparr>, w))"

definition bad :: "ofstream \<Rightarrow> bool" where
  "bad tmp = badbit tmp"

definition ofstream_put :: "string \<Rightarrow> ofstream \<times> world \<Rightarrow> ofstream \<times> world" where
  "ofstream_put str tw =
     (case tw of (tmp, w) \<Rightarrow>
        if failbit tmp \<or> badbit tmp then (tmp\<lparr>failbit := True\<rparr>, w)
        else if \<not> is_open tmp then (tmp\<lparr>badbit := True\<rparr>, w)
        else (tmp,
              case files w (target tmp) of
                None \<Rightarrow> w
              | Some f \<Rightarrow> w\<lparr>files := (files w)(target tmp \<mapsto> f\<lparr>content := content f @ str\<rparr>)\<rparr>))"

definition ofstream_close :: "ofstream \<times> world \<Rightarrow> ofstream \<times> world" where
  "ofstream_close tw =
     (case tw of (tmp, w) \<Rightarrow>
        if is_open tmp then (tmp\<lparr>is_open := False\<rparr>, w) else (tmp\<lparr>failbit := True\<rparr>, w))"

subsection \<open>Gnuplot::create\_tmpfile and Gnuplot::remove\_tmpfiles\<close>

text \<open>
  What the operating system answers during one call of \<open>create_tmpfile\<close>: whether the
  unique-name primitive (\<open>mkstemp\<close>, \<open>_mktemp\<close>) succeeds, the six characters it leaves
  in place of \<open>XXXXXX\<close>, and whether the file can then be opened for writing. The
  primitive is trusted to choose a name that no file has.
\<close>

record os_reply =
  mktemp_ok :: bool
  mktemp_chars :: string
  open_ok :: bool

definition name_template :: "platform \<Rightarrow> string" where
  "name_template p = (case p of Windows \<Rightarrow> ''gnuplotiXXXXXX'' | Posix \<Rightarrow> ''/tmp/gnuplotiXXXXXX'')"

text \<open>\<open>mkstemp\<close> creates the file it names (owner read and write); \<open>_mktemp\<close> only names it.\<close>

definition unique_name_effect :: "platform \<Rightarrow> string \<Rightarrow> world \<Rightarrow> world" where
  "unique_name_effect p name w =
     (case p of Windows \<Rightarrow> w | Posix \<Rightarrow> w\<lparr>files := (files w)(name \<mapsto> fresh_file)\<rparr>)"

text \<open>
  The buffer \<open>name\<close> after the primitive has run, read as a C string: the template
  with its last six characters replaced.
\<close>

definition unique_name :: "platform \<Rightarrow> os_reply \<Rightarrow> string" where
  "unique_name p reply =
     c_str (take (length (name_template p) - 6) (name_template p) @ take 6 (mktemp_chars reply))"

definition create_tmpfile ::
  "platform \<Rightarrow> os_reply \<Rightarrow> ofstream \<Rightarrow> session \<Rightarrow> world
     \<Rightarrow> (exn + string) \<times> ofstream \<times> session \<times> world" where
  "create_tmpfile p reply tmp s w =
     (if tmpfile_num w = GP_MAX_TMP_FILES p - 1
      then (Inl (GnuplotException (''Maximum number of temporary files reached ('' @
                   decimal (nat (GP_MAX_TMP_FILES p)) @ ''): cannot open more files'' @ nl)),
            tmp, s, w)
      else
        let name = unique_name p reply
        in if \<not> mktemp_ok reply
           then (Inl (GnuplotException (''Cannot create temporary file '' @ dq @ name @ dq)),
                 tmp, s, w)
           else
             case ofstream_open name (open_ok reply) (tmp, unique_name_effect p name w) of
               (tmp1, w1) \<Rightarrow>
                 if bad tmp1
                 then (Inl (GnuplotException (''Cannot create temporary file '' @ dq @ name @ dq)),
                       tmp1, s, w1)
                 else (Inr name, tmp1,
                       s\<lparr>tmpfile_list := tmpfile_list s @ [name]\<rparr>,
                       w1\<lparr>tmpfile_num := tmpfile_num w1 + 1\<rparr>))"

text \<open>\<open>remove(path)\<close> of the C library: unlinks an existing file, fails on a missing one.\<close>

definition c_remove :: "string \<Rightarrow> world \<Rightarrow> world option" where
  "c_remove path w =
     (case files w path of
        None \<Rightarrow> None
      | Some f \<Rightarrow> Some (w\<lparr>files := (files w)(path := None)\<rparr>))"

text \<open>The loop of \<open>remove_tmpfiles\<close>, from index \<open>i\<close> on: it leaves at the first failure.\<close>

fun remove_loop :: "string list \<Rightarrow> world \<Rightarrow> (exn + unit) \<times> world" where
  "remove_loop [] w = (Inr (), w)"
| "remove_loop (f # fs) w =
     (case c_remove (c_str f) w of
        None \<Rightarrow> (Inl (GnuplotException (''Cannot remove temporary file '' @ dq @ f @ dq)), w)
      | Some w' \<Rightarrow> remove_loop fs w')"

definition remove_tmpfiles :: "session \<Rightarrow> world \<Rightarrow> (exn + unit) \<times> session \<times> world" where
  "remove_tmpfiles s w =
     (if length (tmpfile_list s) > 0
      then (case remove_loop (tmpfile_list s) w of
              (Inl e, w') \<Rightarrow> (Inl e, s, w')
            | (Inr u, w') \<Rightarrow>
                (Inr (), s, w'\<lparr>tmpfile_num := tmpfile_num w' - int (length (tmpfile_list s))\<rparr>))
      else (Inr (), s, w))"

subsection \<open>The data plotters\<close>

text \<open>
  The templates \<open>plot_xy\<close>, \<open>plot_xy_err\<close> and \<open>plot_xyz\<close> take any containers with
  \<open>empty\<close>, \<open>size\<close> and \<open>operator[]\<close>; the model takes lists, and the \<open>operator<<\<close> of
  each element type as a function to text. The file's contents are written through at
  once, so \<open>flush\<close> changes nothing in the model.
\<close>

definition ofstream_flush :: "ofstream \<times> world \<Rightarrow> ofstream \<times> world" where
  "ofstream_flush tw = tw"

definition plot_xy ::
  "('a \<Rightarrow> string) \<Rightarrow> ('b \<Rightarrow> string) \<Rightarrow> platform \<Rightarrow> os_reply \<Rightarrow>
   'a list \<Rightarrow> 'b list \<Rightarrow> string \<Rightarrow> session \<Rightarrow> world \<Rightarrow> (exn + unit) \<times> session \<times> world" where
  "plot_xy out_x out_y p reply x y title s w =
     (if x = [] \<or> y = []
      then (Inl (GnuplotException ''std::vectors too small''), s, w)
      else if length x \<noteq> length y
      then (Inl (GnuplotException ''Length of the std::vectors differs''), s, w)
      else
        case create_tmpfile p reply ofstream_new s w of
          (Inl e, tmp, s1, w1) \<Rightarrow> (Inl e, s1, w1)
        | (Inr name, tmp, s1, w1) \<Rightarrow>
            if name = []
            then (Inl (GnuplotException ''Unable to create tmp-file.''), s1, w1)
            else
              case ofstream_close (ofstream_flush
                     (foldl (\<lambda>tw i. ofstream_flush (ofstream_put nl
                                (ofstream_put (out_y (y ! i))
                                (ofstream_put '' ''
                                (ofstream_put (out_x (x ! i)) tw)))))
                        (tmp, w1) [0..<length x])) of
                (tmp2, w2) \<Rightarrow>
                  (case plotfile_xy name 1 2 title s1 w2 of (r, s2) \<Rightarrow> (r, s2, w2)))"

definition plot_xy_err ::
  "('a \<Rightarrow> string) \<Rightarrow> ('b \<Rightarrow> string) \<Rightarrow> ('c \<Rightarrow> string) \<Rightarrow> platform \<Rightarrow> os_reply \<Rightarrow>
   'a list \<Rightarrow> 'b list \<Rightarrow> 'c list \<Rightarrow> string \<Rightarrow> session \<Rightarrow> world
     \<Rightarrow> (exn + unit) \<times> session \<times> world" where
  "plot_xy_err out_x out_y out_dy p reply x y dy title s w =
     (if x = [] \<or> y = [] \<or> dy = []
      then (Inl (GnuplotException ''std::vectors too small''), s, w)
      else if length x \<noteq> length y \<or> length y \<noteq> length dy
      then (Inl (GnuplotException ''Length of the std::vectors differs''), s, w)
      else
        case create_tmpfile p reply ofstream_new s w of
          (Inl e, tmp, s1, w1) \<Rightarrow> (Inl e, s1, w1)
        | (Inr name, tmp, s1, w1) \<Rightarrow>
            if name = []
            then (Inl (GnuplotException ''Unable to create tmp-file.''), s1, w1)
            else
              case ofstream_close (ofstream_flush
                     (foldl (\<lambda>tw i. ofstream_flush (ofstream_put nl
                                (ofstream_put (out_dy (dy ! i))
                                (ofstream_put '' ''
                                (ofstream_put (out_y (y ! i))
                                (ofstream_put '' ''
                                (ofstream_put (out_x (x ! i)) tw)))))))
                        (tmp, w1) [0..<length x])) of
                (tmp2, w2) \<Rightarrow>
                  (case plotfile_xy_err name 1 2 3 title s1 w2 of (r, s2) \<Rightarrow> (r, s2, w2)))"

definition plot_xyz ::
  "('a \<Rightarrow> string) \<Rightarrow> ('b \<Rightarrow> string) \<Rightarrow> ('c \<Rightarrow> string) \<Rightarrow> platform \<Rightarrow> os_reply \<Rightarrow>
   'a list \<Rightarrow> 'b list \<Rightarrow> 'c list \<Rightarrow> string \<Rightarrow> session \<Rightarrow> world
     \<Rightarrow> (exn + unit) \<times> session \<times> world" where
  "plot_xyz out_x out_y out_z p reply x y z title s w =
     (if x = [] \<or> y = [] \<or> z = []
      then (Inl (GnuplotException ''std::vectors too small''), s, w)
      else if length x \<noteq> length y \<or> length x \<noteq> length z
      then (Inl (GnuplotException ''Length of the std::vectors differs''), s, w)
      else
        case create_tmpfile p reply ofstream_new s w of
          (Inl e, tmp, s1, w1) \<Rightarrow> (Inl e, s1, w1)
        | (Inr name, tmp, s1, w1) \<Rightarrow>
            if name = []
            then (Inl (GnuplotException ''Unable to create tmp-file.''), s1, w1)
            else
              case ofstream_close (ofstream_flush
                     (foldl (\<lambda>tw i. ofstream_flush (ofstream_put nl
                                (ofstream_put (out_z (z ! i))
                                (ofstream_put '' ''
                                (ofstream_put (out_y (y ! i))
                                (ofstream_put '' ''
                                (ofstream_put (out_x (x ! i)) tw)))))))
                        (tmp, w1) [0..<length x])) of
                (tmp2, w2) \<Rightarrow>
                  (case plotfile_xyz name 1 2 3 title s1 w2 of (r, s2) \<Rightarrow> (r, s2, w2)))"

subsection \<open>The states a process can reach\<close>

text \<open>
  \<open>tmpfile_num\<close> starts at 0 and is written by \<open>create_tmpfile\<close> and
  \<open>remove_tmpfiles\<close> only, called on any session of the process; every other step
  (another member function, another process changing the files) leaves it as it is.
\<close>

inductive reachable :: "platform \<Rightarrow> world \<Rightarrow> bool" for p :: platform where
  start: "tmpfile_num w = 0 \<Longrightarrow> reachable p w"
| create: "reachable p w \<Longrightarrow> create_tmpfile p reply tmp s w = (r, tmp', s', w')
             \<Longrightarrow> reachable p w'"
| remove: "reachable p w \<Longrightarrow> remove_tmpfiles s w = (r, s', w') \<Longrightarrow> reachable p w'"
| other: "reachable p w \<Longrightarrow> tmpfile_num w' = tmpfile_num w \<Longrightarrow> reachable p w'"

subsection \<open>A stream in good order\<close>

text \<open>
  The stream is open on \<open>name\<close> with no error bit set, and the file \<open>name\<close> is
  readable and holds \<open>c\<close>.
\<close>

definition writing :: "string \<Rightarrow> string \<Rightarrow> ofstream \<times> world \<Rightarrow> bool" where
  "writing name c tw =
     (case tw of (tmp, w) \<Rightarrow>
        is_open tmp \<and> target tmp = name \<and> \<not> failbit tmp \<and> \<not> badbit tmp \<and>
        (case files w name of None \<Rightarrow> False | Some f \<Rightarrow> content f = c \<and> perm_r f))"

subsection \<open>The data file, written and read back\<close>









subsection \<open>The text form of a double\<close>

text \<open>
  \<open>operator<<\<close> of an output stream on a \<open>double\<close>, with the stream as \<open>plot_xy\<close> makes
  it (precision 6, no \<open>floatfield\<close> flag): the conversion \<open>%g\<close> of the C library. It is
  modelled from the C and C++ standards for the doubles that hold a whole number \<open>v\<close>:
  below \<open>10\<^sup>6\<close> in size the digits of \<open>v\<close>; from there on one digit, a point and up
  to five more digits (six significant digits, the nearest such value, a tie going to the
  even one; trailing zeros and a bare point dropped), \<open>e+\<close> and the exponent in at least
  two digits.
\<close>

definition round_half_even :: "nat \<Rightarrow> nat \<Rightarrow> nat" where
  "round_half_even n d =
     (let q = n div d; r = n mod d
      in if 2 * r < d then q
         else if 2 * r > d then q + 1
         else if even q then q else q + 1)"

definition strip_zeros :: "string \<Rightarrow> string" where
  "strip_zeros s = rev (dropWhile (\<lambda>c. c = CHR ''0'') (rev s))"

definition show_double_nat :: "nat \<Rightarrow> string" where
  "show_double_nat v =
     (if v < 1000000 then decimal v
      else
        let x0 = length (decimal v) - 1;
            m0 = round_half_even v (10 ^ (x0 - 5));
            m = (if m0 = 1000000 then 100000 else m0);
            x = (if m0 = 1000000 then x0 + 1 else x0);
            ds = decimal m;
            frac = strip_zeros (tl ds)
        in [hd ds] @ (if frac = [] then [] else ''.'' @ frac) @ ''e+'' @
           (if x < 10 then ''0'' else []) @ decimal x)"

definition show_double :: "int \<Rightarrow> string" where
  "show_double v = (if v < 0 then ''-'' else []) @ show_double_nat (nat \<bar>v\<bar>)"







subsection \<open>Example states\<close>

text \<open>
  A session on a POSIX system right after construction with the style \<open>lines\<close>, the same
  session before its pipe was opened, and a world with the plotter installed in
  \<open>/usr/bin\<close> and two data files in \<open>/tmp\<close>.
\<close>

definition session_a :: session where
  "session_a = \<lparr>gnucmd = [], valid = True, two_dim = False, nplots = 0,
                 pstyle = ''lines'', smooth = [], tmpfile_list = []\<rparr>"

definition session_invalid :: session where
  "session_invalid = \<lparr>gnucmd = [], valid = False, two_dim = False, nplots = 0,
                       pstyle = ''points'', smooth = [], tmpfile_list = []\<rparr>"

definition program_file :: disk_file where
  "program_file = \<lparr>content = [], perm_r = True, perm_w = False, perm_x = True\<rparr>"

definition data_file :: disk_file where
  "data_file = \<lparr>content = ''1 4'' @ nl, perm_r = True, perm_w = True, perm_x = False\<rparr>"

definition world_a :: world where
  "world_a = \<lparr>tmpfile_num = 0, m_sGNUPlotFileName = ''gnuplot'',
               m_sGNUPlotPath = ''/usr/local/bin/'', terminal_std = ''x11'',
               files = [''/usr/bin/gnuplot'' \<mapsto> program_file,
                        ''/tmp/gnuplotiAAAAAA'' \<mapsto> data_file,
                        ''/tmp/gnuplotiBBBBBB'' \<mapsto> data_file]\<rparr>"

text \<open>
  The same session after a first two-dimensional plot of the first data file, and a world
  in which the two data files are the process's two temporary files.
\<close>

definition session_b :: session where
  "session_b = \<lparr>gnucmd = [], valid = True, two_dim = True, nplots = 1,
                 pstyle = ''lines'', smooth = [], tmpfile_list = [''/tmp/gnuplotiAAAAAA'']\<rparr>"

definition session_c :: session where
  "session_c = \<lparr>gnucmd = [], valid = True, two_dim = True, nplots = 2,
                 pstyle = ''lines'', smooth = [],
                 tmpfile_list = [''/tmp/gnuplotiAAAAAA'', ''/tmp/gnuplotiBBBBBB'']\<rparr>"

definition world_c :: world where
  "world_c = world_a\<lparr>tmpfile_num := 2\<rparr>"

text \<open>
  Answers of the operating system: all is well; the name is made but the file cannot be
  opened (a working directory without write permission, on Windows).
\<close>

definition reply_ok :: os_reply where
  "reply_ok = \<lparr>mktemp_ok = True, mktemp_chars = ''CCCCCC'', open_ok = True\<rparr>"

definition reply_no_open :: os_reply where
  "reply_no_open = \<lparr>mktemp_ok = True, mktemp_chars = ''a01234'', open_ok = False\<rparr>"

text \<open>A world in which the temporary-file counter stands at the POSIX bound.\<close>

definition world_full :: world where
  "world_full = world_a\<lparr>tmpfile_num := 63\<rparr>"

text \<open>
  Following the claim's words: the command of a file plot is the verb, the quoted file,
  the columns, the title clause and the smoothing or style clause, one space apart.
\<close>

definition spec_file_plot_command :: "session \<Rightarrow> string \<Rightarrow> string \<Rightarrow> string \<Rightarrow> string" where
  "spec_file_plot_command s filename columns title =
     (if sint (nplots s) > 0 \<and> two_dim s then ''replot'' else ''plot'') @ '' '' @
     dq @ filename @ dq @ '' using '' @ columns @ '' '' @
     (if title = [] then ''notitle'' else ''title '' @ dq @ title @ dq) @ '' '' @
     (if smooth s \<noteq> [] then ''smooth '' @ smooth s else ''with '' @ pstyle s)"

section \<open>Properties\<close>

subsection \<open>Substring search\<close>

lemma str_find_iff_sublist: "str_find s pat \<noteq> None \<longleftrightarrow> sublist pat s"
  by (induction s) (auto simp: sublist_Cons_right)

text \<open>On text without a NUL character, \<open>c_str\<close> is the identity.\<close>

lemma c_str_no_nul: "CHR 0x00 \<notin> set s \<Longrightarrow> c_str s = s"
  by (auto simp: c_str_def takeWhile_eq_all_conv)

lemma str_find_None_iff: "str_find s pat = None \<longleftrightarrow> \<not> sublist pat s"
  using str_find_iff_sublist [of s pat] by blast

subsection \<open>Plot-mode state\<close>

text \<open>Below \<open>INT_MAX\<close> the increment is the integers' increment; at \<open>INT_MAX\<close> it wraps.\<close>

lemma sint_increment:
  "sint (n :: 32 word) < 2147483647 \<Longrightarrow> sint (n + 1) = sint n + 1"
  using sint_ge [of n]
  by (simp add: sint_word_ariths signed_take_bit_int_eq_self)

lemma sint_increment_wraps: "sint ((2147483647 :: 32 word) + 1) = - 2147483648"
  by simp

text \<open>
  Claim C1. On a valid session with \<open>nplots\<close> below \<open>INT_MAX\<close>, \<open>cmd(c)\<close> leaves
  \<open>two_dim\<close> and \<open>nplots\<close> alone when \<open>c\<close> contains \<open>replot\<close>; otherwise, when \<open>c\<close>
  contains \<open>splot\<close>, it sets \<open>two_dim\<close> to false and adds one to \<open>nplots\<close>; otherwise,
  when \<open>c\<close> contains \<open>plot\<close>, it sets \<open>two_dim\<close> to true and adds one to \<open>nplots\<close>;
  otherwise it leaves both alone.
\<close>

theorem cmd_plot_mode:
  assumes "valid s" and "sint (nplots s) < 2147483647"
  shows "if sublist ''replot'' c
           then two_dim (cmd c s) = two_dim s \<and> nplots (cmd c s) = nplots s
         else if sublist ''splot'' c
           then two_dim (cmd c s) = False \<and> sint (nplots (cmd c s)) = sint (nplots s) + 1
         else if sublist ''plot'' c
           then two_dim (cmd c s) = True \<and> sint (nplots (cmd c s)) = sint (nplots s) + 1
         else two_dim (cmd c s) = two_dim s \<and> nplots (cmd c s) = nplots s"
  using assms(1) sint_increment [OF assms(2)]
  unfolding cmd_def str_find_iff_sublist by (simp add: Let_def)

theorem cmd_plot_mode_witness:
  "valid session_a \<and> sint (nplots session_a) = 0 \<and>
   two_dim (cmd ''splot sin(x)'' session_a) = False \<and>
   sint (nplots (cmd ''splot sin(x)'' session_a)) = 1 \<and>
   two_dim (cmd ''plot x'' (cmd ''splot sin(x)'' session_a)) = True \<and>
   sint (nplots (cmd ''plot x'' (cmd ''splot sin(x)'' session_a))) = 2 \<and>
   two_dim (cmd ''replot'' (cmd ''splot sin(x)'' session_a)) = False \<and>
   sint (nplots (cmd ''replot'' (cmd ''splot sin(x)'' session_a))) = 1"
proof -
  have v: "valid session_a"
    by (simp add: session_a_def)
  have n0: "sint (nplots session_a) = 0"
    by (simp add: session_a_def)
  have b0: "sint (nplots session_a) < 2147483647"
    using n0 by simp
  have s1: "two_dim (cmd ''splot sin(x)'' session_a) = False"
    and n1: "sint (nplots (cmd ''splot sin(x)'' session_a)) = 1"
    using cmd_plot_mode [OF v b0, of "''splot sin(x)''"] n0
    by (simp_all add: sublist_Cons_right)
  have v1: "valid (cmd ''splot sin(x)'' session_a)"
    by (simp add: session_a_def cmd_def Let_def)
  have b1: "sint (nplots (cmd ''splot sin(x)'' session_a)) < 2147483647"
    using n1 by simp
  from cmd_plot_mode [OF v1 b1, of "''plot x''"]
       cmd_plot_mode [OF v1 b1, of "''replot''"] v n0 s1 n1
  show ?thesis
    by (simp add: sublist_Cons_right)
qed

text \<open>
  Claim C8. On a session whose validity flag is false, \<open>cmd(c)\<close> does nothing at all:
  the pipe receives nothing and every member keeps its value.
\<close>

theorem cmd_invalid_noop:
  assumes "\<not> valid s"
  shows "cmd c s = s"
  using assms by (simp add: cmd_def)

theorem cmd_invalid_noop_witness:
  "\<not> valid session_invalid \<and> cmd ''plot sin(x)'' session_invalid = session_invalid"
proof -
  have nv: "\<not> valid session_invalid"
    by (simp add: session_invalid_def)
  from cmd_invalid_noop [OF nv, of "''plot sin(x)''"] nv show ?thesis
    by simp
qed

subsection \<open>Smoothing\<close>

lemma sublist_nonempty: "sublist (a # pat) x \<Longrightarrow> x \<noteq> []"
  by auto

text \<open>
  Claim C7. After \<open>set_smooth(x)\<close> the smoothing string is non-empty exactly when \<open>x\<close>
  contains one of \<open>unique\<close>, \<open>frequency\<close>, \<open>csplines\<close>, \<open>bezier\<close>; it is then \<open>x\<close> itself,
  and empty otherwise. No other member changes and the pipe receives nothing.
\<close>

theorem set_smooth_tokens:
  "(smooth (set_smooth x s) \<noteq> [] \<longleftrightarrow>
      sublist ''unique'' x \<or> sublist ''frequency'' x \<or>
      sublist ''csplines'' x \<or> sublist ''bezier'' x) \<and>
   (sublist ''unique'' x \<or> sublist ''frequency'' x \<or>
    sublist ''csplines'' x \<or> sublist ''bezier'' x \<longrightarrow> smooth (set_smooth x s) = x) \<and>
   (\<not> (sublist ''unique'' x \<or> sublist ''frequency'' x \<or>
       sublist ''csplines'' x \<or> sublist ''bezier'' x) \<longrightarrow> smooth (set_smooth x s) = []) \<and>
   gnucmd (set_smooth x s) = gnucmd s \<and> valid (set_smooth x s) = valid s \<and>
   two_dim (set_smooth x s) = two_dim s \<and> nplots (set_smooth x s) = nplots s \<and>
   pstyle (set_smooth x s) = pstyle s \<and> tmpfile_list (set_smooth x s) = tmpfile_list s"
  unfolding set_smooth_def str_find_None_iff
  by (auto dest: sublist_nonempty)

theorem set_smooth_tokens_witness:
  "smooth (set_smooth ''csplines'' session_a) = ''csplines'' \<and>
   smooth (set_smooth ''lines'' (set_smooth ''csplines'' session_a)) = []"
proof -
  have a: "sublist ''csplines'' ''csplines''"
    by simp
  have b: "\<not> (sublist ''unique'' ''lines'' \<or> sublist ''frequency'' ''lines'' \<or>
              sublist ''csplines'' ''lines'' \<or> sublist ''bezier'' ''lines'')"
    by (simp add: sublist_Cons_right)
  from set_smooth_tokens [of "''csplines''" session_a]
       set_smooth_tokens [of "''lines''" "set_smooth ''csplines'' session_a"] a b
  show ?thesis
    by blast
qed

subsection \<open>File plots\<close>

lemma file_available_iff:
  "file_available w filename = Inr True \<longleftrightarrow>
     (\<exists>f. files w (c_str filename) = Some f \<and> perm_r f)"
  by (auto simp: file_available_def file_exists_def c_access_def
           split: option.splits bool.splits)

text \<open>
  Claim C2. \<open>plotfile_x\<close> and \<open>plotfile_xy\<close>, given a readable file on a valid session,
  write one line to the pipe: the verb \<open>replot\<close> when \<open>nplots > 0\<close> and \<open>two_dim\<close> holds
  and \<open>plot\<close> otherwise, the file name in double quotes, \<open>using\<close> and the column
  indices, \<open>notitle\<close> for an empty title, and last \<open>smooth\<close> with the smoothing string
  when that is non-empty and \<open>with\<close> and the style when it is empty. (\<open>fputs\<close>
  writes the line as a C string, which is the whole line unless it holds a NUL character.)
\<close>

theorem plotfile_command:
  assumes "files w (c_str filename) = Some f" and "perm_r f" and "valid s"
  shows "fst (plotfile_x filename column title s w) = Inr () \<and>
         gnucmd (snd (plotfile_x filename column title s w)) =
           gnucmd s @
           c_str (spec_file_plot_command s filename (decimal (unat column)) title @ nl) \<and>
         fst (plotfile_xy filename column_x column_y title s w) = Inr () \<and>
         gnucmd (snd (plotfile_xy filename column_x column_y title s w)) =
           gnucmd s @
           c_str (spec_file_plot_command s filename
                    (decimal (unat column_x) @ '':'' @ decimal (unat column_y)) title @ nl)"
proof -
  have av: "file_available w filename = Inr True"
    using assms(1,2) by (simp add: file_available_iff)
  have g: "gnucmd (cmd c s) = gnucmd s @ c_str (c @ nl)" for c
    using assms(3) by (simp add: cmd_def Let_def)
  show ?thesis
    by (simp add: plotfile_x_def plotfile_xy_def av Let_def g spec_file_plot_command_def
          show_unsigned_def)
qed

theorem plotfile_command_witness:
  \<open>gnucmd (snd (plotfile_xy ''/tmp/gnuplotiBBBBBB'' 1 2 [] session_b world_a)) =
     ''replot "/tmp/gnuplotiBBBBBB" using 1:2 notitle with lines'' @ nl \<and>
   gnucmd (snd (plotfile_x ''/tmp/gnuplotiAAAAAA'' 1 ''t''
                  (session_a\<lparr>smooth := ''csplines''\<rparr>) world_a)) =
     ''plot "/tmp/gnuplotiAAAAAA" using 1 title "t" smooth csplines'' @ nl\<close>
proof -
  have fa: "files world_a (c_str ''/tmp/gnuplotiAAAAAA'') = Some data_file"
    and fb: "files world_a (c_str ''/tmp/gnuplotiBBBBBB'') = Some data_file"
    by (simp_all add: world_a_def c_str_def)
  have r: "perm_r data_file"
    by (simp add: data_file_def)
  have vb: "valid session_b" and va: "valid (session_a\<lparr>smooth := ''csplines''\<rparr>)"
    by (simp_all add: session_a_def session_b_def)
  from plotfile_command [OF fb r vb, of 1 "[]" 1 2]
       plotfile_command [OF fa r va, of 1 "''t''" 1 2]
  show ?thesis
    by (simp add: spec_file_plot_command_def session_a_def session_b_def decimal.simps
          digit_def dq_def nl_def c_str_def)
qed

subsection \<open>Input checks of the data plots\<close>

text \<open>
  Claim C3. \<open>plot_xy\<close>, \<open>plot_xy_err\<close> and \<open>plot_xyz\<close> throw \<open>std::vectors too small\<close>
  when one of their sequences is empty and \<open>Length of the std::vectors differs\<close> when
  none is empty and the lengths are not all equal; in both cases the session (with
  \<open>nplots\<close>, \<open>two_dim\<close> and the temporary-file list) and the world (with the temporary-file
  counter and every file) are as before the call.
\<close>

theorem data_plot_rejects_bad_input:
  "(x = [] \<or> y = [] \<longrightarrow>
      plot_xy out_x out_y p reply x y title s w =
        (Inl (GnuplotException ''std::vectors too small''), s, w)) \<and>
   (x \<noteq> [] \<and> y \<noteq> [] \<and> length x \<noteq> length y \<longrightarrow>
      plot_xy out_x out_y p reply x y title s w =
        (Inl (GnuplotException ''Length of the std::vectors differs''), s, w)) \<and>
   (x = [] \<or> y = [] \<or> dy = [] \<longrightarrow>
      plot_xy_err out_x out_y out_dy p reply x y dy title s w =
        (Inl (GnuplotException ''std::vectors too small''), s, w)) \<and>
   (x \<noteq> [] \<and> y \<noteq> [] \<and> dy \<noteq> [] \<and> \<not> (length x = length y \<and> length y = length dy) \<longrightarrow>
      plot_xy_err out_x out_y out_dy p reply x y dy title s w =
        (Inl (GnuplotException ''Length of the std::vectors differs''), s, w)) \<and>
   (x = [] \<or> y = [] \<or> z = [] \<longrightarrow>
      plot_xyz out_x out_y out_z p reply x y z title s w =
        (Inl (GnuplotException ''std::vectors too small''), s, w)) \<and>
   (x \<noteq> [] \<and> y \<noteq> [] \<and> z \<noteq> [] \<and> \<not> (length x = length y \<and> length y = length z) \<longrightarrow>
      plot_xyz out_x out_y out_z p reply x y z title s w =
        (Inl (GnuplotException ''Length of the std::vectors differs''), s, w))"
  by (auto simp: plot_xy_def plot_xy_err_def plot_xyz_def)

theorem data_plot_rejects_bad_input_witness:
  "plot_xy decimal decimal Posix reply_ok [] [4, 5] ''t'' session_a world_a =
     (Inl (GnuplotException ''std::vectors too small''), session_a, world_a) \<and>
   plot_xy decimal decimal Posix reply_ok [1, 2, 3] [4, 5] ''t'' session_a world_a =
     (Inl (GnuplotException ''Length of the std::vectors differs''), session_a, world_a) \<and>
   plot_xy_err decimal decimal decimal Posix reply_ok [1, 2] [4, 5] [] ''t'' session_a world_a =
     (Inl (GnuplotException ''std::vectors too small''), session_a, world_a) \<and>
   plot_xy_err decimal decimal decimal Posix reply_ok [1, 2] [4, 5] [7] ''t'' session_a world_a =
     (Inl (GnuplotException ''Length of the std::vectors differs''), session_a, world_a) \<and>
   plot_xyz decimal decimal decimal Posix reply_ok [1, 2] [] [7, 8] ''t'' session_a world_a =
     (Inl (GnuplotException ''std::vectors too small''), session_a, world_a) \<and>
   plot_xyz decimal decimal decimal Posix reply_ok [1, 2] [4] [7, 8] ''t'' session_a world_a =
     (Inl (GnuplotException ''Length of the std::vectors differs''), session_a, world_a)"
proof -
  note th = data_plot_rejects_bad_input
              [where out_x = decimal and out_y = decimal and out_dy = decimal and
                     out_z = decimal and p = Posix and reply = reply_ok and
                     title = "''t''" and s = session_a and w = world_a]
  have a: "plot_xy decimal decimal Posix reply_ok [] [4, 5] ''t'' session_a world_a =
             (Inl (GnuplotException ''std::vectors too small''), session_a, world_a)"
    using th [where x = "[]" and y = "[4, 5]" and dy = "[]" and z = "[]"] by simp
  have b: "plot_xy decimal decimal Posix reply_ok [1, 2, 3] [4, 5] ''t'' session_a world_a =
             (Inl (GnuplotException ''Length of the std::vectors differs''),
              session_a, world_a)"
    using th [where x = "[1, 2, 3]" and y = "[4, 5]" and dy = "[]" and z = "[]"] by simp
  have c: "plot_xy_err decimal decimal decimal Posix reply_ok [1, 2] [4, 5] [] ''t''
             session_a world_a =
             (Inl (GnuplotException ''std::vectors too small''), session_a, world_a)"
    using th [where x = "[1, 2]" and y = "[4, 5]" and dy = "[]" and z = "[]"] by simp
  have d: "plot_xy_err decimal decimal decimal Posix reply_ok [1, 2] [4, 5] [7] ''t''
             session_a world_a =
             (Inl (GnuplotException ''Length of the std::vectors differs''),
              session_a, world_a)"
    using th [where x = "[1, 2]" and y = "[4, 5]" and dy = "[7]" and z = "[]"] by simp
  have e: "plot_xyz decimal decimal decimal Posix reply_ok [1, 2] [] [7, 8] ''t''
             session_a world_a =
             (Inl (GnuplotException ''std::vectors too small''), session_a, world_a)"
    using th [where x = "[1, 2]" and y = "[]" and dy = "[]" and z = "[7, 8]"] by simp
  have f: "plot_xyz decimal decimal decimal Posix reply_ok [1, 2] [4] [7, 8] ''t''
             session_a world_a =
             (Inl (GnuplotException ''Length of the std::vectors differs''),
              session_a, world_a)"
    using th [where x = "[1, 2]" and y = "[4]" and dy = "[]" and z = "[7, 8]"] by simp
  from a b c d e f show ?thesis
    by (intro conjI)
qed

subsection \<open>The plotter directory\<close>

text \<open>
  Claim C9. \<open>set_GNUPlotPath(path)\<close> returns true and stores \<open>path\<close> as the plotter
  directory when the file \<open>path/<plotter filename>\<close> exists (and, on POSIX, may be
  executed); otherwise it returns false and stores the empty string.
\<close>

theorem set_GNUPlotPath_result:
  "set_GNUPlotPath p path w =
     (if (\<exists>f. files w (c_str (path @ ''/'' @ m_sGNUPlotFileName w)) = Some f \<and>
              (p = Posix \<longrightarrow> perm_x f))
      then (Inr True, w\<lparr>m_sGNUPlotPath := path\<rparr>)
      else (Inr False, w\<lparr>m_sGNUPlotPath := []\<rparr>))"
  by (cases p)
     (auto simp: set_GNUPlotPath_def file_exists_def c_access_def Let_def
           split: option.splits bool.splits)

theorem set_GNUPlotPath_result_witness:
  "set_GNUPlotPath Posix ''/usr/bin'' world_a =
     (Inr True, world_a\<lparr>m_sGNUPlotPath := ''/usr/bin''\<rparr>) \<and>
   set_GNUPlotPath Posix ''/tmp'' world_a = (Inr False, world_a\<lparr>m_sGNUPlotPath := []\<rparr>) \<and>
   set_GNUPlotPath Posix ''/opt/gnuplot/bin'' world_a =
     (Inr False, world_a\<lparr>m_sGNUPlotPath := []\<rparr>)"
proof -
  have n: "m_sGNUPlotFileName world_a = ''gnuplot''"
    by (simp add: world_a_def)
  have a: "files world_a (c_str ''/usr/bin/gnuplot'') = Some program_file"
    and b: "files world_a (c_str ''/tmp/gnuplot'') = None"
    and c: "files world_a (c_str ''/opt/gnuplot/bin/gnuplot'') = None"
    by (simp_all add: world_a_def c_str_def)
  have x: "perm_x program_file"
    by (simp add: program_file_def)
  from set_GNUPlotPath_result [of Posix "''/usr/bin''" world_a]
       set_GNUPlotPath_result [of Posix "''/tmp''" world_a]
       set_GNUPlotPath_result [of Posix "''/opt/gnuplot/bin''" world_a]
  show ?thesis
    by (simp add: n a b c x)
qed

subsection \<open>Removing temporary files\<close>

lemma c_remove_files:
  "c_remove path w = Some w' \<Longrightarrow>
     files w' = (files w)(path := None) \<and> tmpfile_num w' = tmpfile_num w"
  by (auto simp: c_remove_def split: option.splits)

lemma remove_loop_keeps_missing:
  "remove_loop fs w = (r, w') \<Longrightarrow> files w q = None \<Longrightarrow> files w' q = None"
proof (induction fs arbitrary: w)
  case Nil
  then show ?case by simp
next
  case (Cons f fs)
  show ?case
  proof (cases "c_remove (c_str f) w")
    case None
    with Cons.prems show ?thesis by simp
  next
    case (Some w1)
    with Cons.prems have "remove_loop fs w1 = (r, w')" by simp
    moreover have "files w1 q = None"
      using c_remove_files [OF Some] Cons.prems(2) by simp
    ultimately show ?thesis by (rule Cons.IH)
  qed
qed

lemma remove_loop_counter:
  "remove_loop fs w = (r, w') \<Longrightarrow> tmpfile_num w' = tmpfile_num w"
proof (induction fs arbitrary: w)
  case Nil
  then show ?case by auto
next
  case (Cons f fs)
  then show ?case
    by (auto split: option.splits dest: c_remove_files)
qed

lemma remove_loop_removes:
  "remove_loop fs w = (Inr u, w') \<Longrightarrow> f \<in> set fs \<Longrightarrow> files w' (c_str f) = None"
proof (induction fs arbitrary: w)
  case Nil
  then show ?case by simp
next
  case (Cons g fs)
  from Cons.prems(1) obtain w1 where
    r: "c_remove (c_str g) w = Some w1" and l: "remove_loop fs w1 = (Inr u, w')"
    by (auto split: option.splits)
  show ?case
  proof (cases "f = g")
    case True
    have "files w1 (c_str g) = None"
      using c_remove_files [OF r] by simp
    with l True show ?thesis
      by (auto dest: remove_loop_keeps_missing)
  next
    case False
    with Cons.prems(2) have "f \<in> set fs" by simp
    with l show ?thesis by (rule Cons.IH)
  qed
qed

lemma remove_tmpfiles_counter:
  assumes "remove_tmpfiles s w = (r, s', w')"
  shows "tmpfile_num w' \<le> tmpfile_num w"
proof -
  obtain r1 w1 where l: "remove_loop (tmpfile_list s) w = (r1, w1)"
    by (cases "remove_loop (tmpfile_list s) w")
  have "tmpfile_num w1 = tmpfile_num w"
    using l by (rule remove_loop_counter)
  with assms l show ?thesis
    by (cases r1) (auto simp: remove_tmpfiles_def split: if_splits)
qed

text \<open>
  Claim C10. \<open>remove_tmpfiles\<close> never clears the temporary-file list. After a call that
  has unlinked every file of a non-empty list and lowered the counter by the list's size,
  the list is what it was and none of its files exists, so the next call on the same
  session throws at the first entry of the list, with the counter (and the world) as the
  first call left them.
\<close>

theorem remove_tmpfiles_keeps_list:
  assumes "tmpfile_list s \<noteq> []" and "remove_tmpfiles s w = (Inr (), s', w')"
  shows "tmpfile_list s' = tmpfile_list s \<and>
         tmpfile_num w' = tmpfile_num w - int (length (tmpfile_list s)) \<and>
         (\<forall>f \<in> set (tmpfile_list s). files w' (c_str f) = None) \<and>
         remove_tmpfiles s' w' =
           (Inl (GnuplotException
                  (''Cannot remove temporary file '' @ dq @ hd (tmpfile_list s') @ dq)), s', w')"
proof -
  obtain r w1 where l0: "remove_loop (tmpfile_list s) w = (r, w1)"
    by (cases "remove_loop (tmpfile_list s) w")
  have r: "r = Inr ()"
    using assms l0 by (cases r) (simp_all add: remove_tmpfiles_def)
  have l: "remove_loop (tmpfile_list s) w = (Inr (), w1)"
    using l0 r by simp
  have w': "w' = w1\<lparr>tmpfile_num := tmpfile_num w1 - int (length (tmpfile_list s))\<rparr>"
    and s': "s' = s"
    using assms l by (auto simp: remove_tmpfiles_def)
  have cnt: "tmpfile_num w1 = tmpfile_num w"
    using l by (rule remove_loop_counter)
  have gone: "files w1 (c_str f) = None" if "f \<in> set (tmpfile_list s)" for f
    using l that by (rule remove_loop_removes)
  obtain g gs where gs: "tmpfile_list s = g # gs"
    using assms(1) by (cases "tmpfile_list s") auto
  have "files w' (c_str g) = None"
    using gone [of g] gs w' by simp
  then have again: "remove_tmpfiles s w' =
      (Inl (GnuplotException (''Cannot remove temporary file '' @ dq @ g @ dq)), s, w')"
    by (simp add: remove_tmpfiles_def gs c_remove_def)
  show ?thesis
    using s' w' cnt gone again gs by simp
qed

theorem remove_tmpfiles_keeps_list_witness:
  \<open>tmpfile_list session_c \<noteq> [] \<and>
   tmpfile_num world_c = 2 \<and>
   fst (remove_tmpfiles session_c world_c) = Inr () \<and>
   tmpfile_list (fst (snd (remove_tmpfiles session_c world_c))) =
     [''/tmp/gnuplotiAAAAAA'', ''/tmp/gnuplotiBBBBBB''] \<and>
   tmpfile_num (snd (snd (remove_tmpfiles session_c world_c))) = 0 \<and>
   remove_tmpfiles session_c (snd (snd (remove_tmpfiles session_c world_c))) =
     (Inl (GnuplotException ''Cannot remove temporary file "/tmp/gnuplotiAAAAAA"''),
      session_c, snd (snd (remove_tmpfiles session_c world_c)))\<close>
proof -
  have ne: "tmpfile_list session_c \<noteq> []"
    by (simp add: session_c_def)
  have ok: "fst (remove_tmpfiles session_c world_c) = Inr ()"
    and same: "fst (snd (remove_tmpfiles session_c world_c)) = session_c"
    by (simp_all add: remove_tmpfiles_def session_c_def world_c_def world_a_def c_remove_def
          c_str_def)
  have run: "remove_tmpfiles session_c world_c =
               (Inr (), session_c, snd (snd (remove_tmpfiles session_c world_c)))"
    using ok same by (simp add: prod_eq_iff)
  have l: "tmpfile_list session_c = [''/tmp/gnuplotiAAAAAA'', ''/tmp/gnuplotiBBBBBB'']"
    by (simp add: session_c_def)
  have c: "tmpfile_num world_c = 2"
    by (simp add: world_c_def)
  from remove_tmpfiles_keeps_list [OF ne run] ok same l c show ?thesis
    by (simp add: dq_def)
qed

subsection \<open>Creating temporary files\<close>

lemma ofstream_open_counter:
  "ofstream_open name ok (tmp, w) = (tmp', w') \<Longrightarrow> tmpfile_num w' = tmpfile_num w"
  by (auto simp: ofstream_open_def split: if_splits)

lemma ofstream_open_bad:
  "ofstream_open name ok (tmp, w) = (tmp', w') \<Longrightarrow> \<not> badbit tmp \<Longrightarrow> \<not> bad tmp'"
  by (auto simp: ofstream_open_def bad_def split: if_splits)

lemma unique_name_effect_counter:
  "tmpfile_num (unique_name_effect p name w) = tmpfile_num w"
  by (cases p) (simp_all add: unique_name_effect_def)

lemma unique_name_nonempty: "unique_name p reply \<noteq> []"
  by (cases p) (simp_all add: unique_name_def name_template_def c_str_def)

text \<open>The two failures that the source detects, and what any failure leaves behind.\<close>

lemma create_tmpfile_quota:
  "tmpfile_num w = GP_MAX_TMP_FILES p - 1 \<Longrightarrow>
     create_tmpfile p reply tmp s w =
       (Inl (GnuplotException (''Maximum number of temporary files reached ('' @
               decimal (nat (GP_MAX_TMP_FILES p)) @ ''): cannot open more files'' @ nl)),
        tmp, s, w)"
  by (simp add: create_tmpfile_def)

lemma create_tmpfile_no_name:
  "tmpfile_num w \<noteq> GP_MAX_TMP_FILES p - 1 \<Longrightarrow> \<not> mktemp_ok reply \<Longrightarrow>
     create_tmpfile p reply tmp s w =
       (Inl (GnuplotException
               (''Cannot create temporary file '' @ dq @ unique_name p reply @ dq)),
        tmp, s, w)"
  by (simp add: create_tmpfile_def Let_def)

lemma create_tmpfile_Inl:
  assumes "create_tmpfile p reply tmp s w = (Inl e, tmp', s', w')"
  shows "s' = s \<and> tmpfile_num w' = tmpfile_num w"
proof -
  obtain t1 w1 where o:
    "ofstream_open (unique_name p reply) (open_ok reply)
       (tmp, unique_name_effect p (unique_name p reply) w) = (t1, w1)"
    by (cases "ofstream_open (unique_name p reply) (open_ok reply)
                 (tmp, unique_name_effect p (unique_name p reply) w)")
  have c: "tmpfile_num w1 = tmpfile_num w"
    using ofstream_open_counter [OF o] by (simp add: unique_name_effect_counter)
  from assms o c show ?thesis
    by (auto simp: create_tmpfile_def Let_def split: if_splits)
qed

text \<open>What a call that returns has done.\<close>

lemma create_tmpfile_Inr:
  assumes "create_tmpfile p reply tmp s w = (Inr name, tmp', s', w')"
  shows "name \<noteq> [] \<and> tmpfile_list s' = tmpfile_list s @ [name] \<and>
         tmpfile_num w' = tmpfile_num w + 1 \<and> tmpfile_num w \<noteq> GP_MAX_TMP_FILES p - 1"
proof -
  obtain t1 w1 where o:
    "ofstream_open (unique_name p reply) (open_ok reply)
       (tmp, unique_name_effect p (unique_name p reply) w) = (t1, w1)"
    by (cases "ofstream_open (unique_name p reply) (open_ok reply)
                 (tmp, unique_name_effect p (unique_name p reply) w)")
  have c: "tmpfile_num w1 = tmpfile_num w"
    using ofstream_open_counter [OF o] by (simp add: unique_name_effect_counter)
  from assms o c show ?thesis
    by (auto simp: create_tmpfile_def Let_def unique_name_nonempty split: if_splits)
qed

text \<open>
  With a stream whose \<open>badbit\<close> is clear (every caller passes a new stream), a name from
  the primitive and the counter off the bound, the call returns, whether or not the file
  could be opened.
\<close>

lemma create_tmpfile_returns:
  assumes "tmpfile_num w \<noteq> GP_MAX_TMP_FILES p - 1" and "mktemp_ok reply" and "\<not> badbit tmp"
  shows "\<exists>tmp' s' w'. create_tmpfile p reply tmp s w = (Inr (unique_name p reply), tmp', s', w')"
proof -
  obtain t1 w1 where o:
    "ofstream_open (unique_name p reply) (open_ok reply)
       (tmp, unique_name_effect p (unique_name p reply) w) = (t1, w1)"
    by (cases "ofstream_open (unique_name p reply) (open_ok reply)
                 (tmp, unique_name_effect p (unique_name p reply) w)")
  have "\<not> bad t1"
    using ofstream_open_bad [OF o assms(3)] .
  with assms o show ?thesis
    by (simp add: create_tmpfile_def Let_def)
qed

subsection \<open>The bound on the temporary-file counter\<close>

lemma reachable_bound: "reachable p w \<Longrightarrow> tmpfile_num w \<le> GP_MAX_TMP_FILES p - 1"
proof (induction rule: reachable.induct)
  case (start w)
  then show ?case by (cases p) (simp_all add: GP_MAX_TMP_FILES_def)
next
  case (create w reply tmp s r tmp' s' w')
  show ?case
  proof (cases r)
    case (Inl e)
    with create show ?thesis by (auto dest: create_tmpfile_Inl)
  next
    case (Inr name)
    with create.hyps(2) have "tmpfile_num w' = tmpfile_num w + 1"
      and "tmpfile_num w \<noteq> GP_MAX_TMP_FILES p - 1"
      by (auto dest: create_tmpfile_Inr)
    with create.IH show ?thesis by simp
  qed
next
  case (remove w s r s' w')
  then show ?case by (auto dest: remove_tmpfiles_counter)
next
  case (other w w')
  then show ?case by simp
qed

text \<open>The bound is attained: every count from 0 up to it is reached.\<close>

lemma reachable_count:
  "int n \<le> GP_MAX_TMP_FILES p - 1 \<Longrightarrow> tmpfile_num w = int n \<Longrightarrow> reachable p w"
proof (induction n arbitrary: w)
  case 0
  then show ?case by (simp add: reachable.start)
next
  case (Suc n)
  let ?w0 = "w\<lparr>tmpfile_num := int n\<rparr>"
  have r0: "reachable p ?w0"
    using Suc.prems by (intro Suc.IH) simp_all
  have "tmpfile_num ?w0 \<noteq> GP_MAX_TMP_FILES p - 1"
    using Suc.prems by simp
  then obtain tmp' s' w1 where
    c: "create_tmpfile p reply_ok ofstream_new session_a ?w0 =
          (Inr (unique_name p reply_ok), tmp', s', w1)"
    using create_tmpfile_returns [of ?w0 p reply_ok ofstream_new session_a]
    by (auto simp: reply_ok_def ofstream_new_def)
  have "tmpfile_num w1 = int n + 1"
    using create_tmpfile_Inr [OF c] by simp
  then have "tmpfile_num w = tmpfile_num w1"
    using Suc.prems by simp
  with reachable.create [OF r0 c] show ?case
    by (rule reachable.other)
qed

text \<open>
  Claim C4. The process-wide counter of temporary files never exceeds
  \<open>GP_MAX_TMP_FILES - 1\<close>, which is 63 on POSIX and 26 on Windows: a call of
  \<open>create_tmpfile\<close> with the counter at that value throws (and changes nothing), and a
  call that returns has raised the counter by exactly one.
\<close>

theorem tmpfile_quota:
  "GP_MAX_TMP_FILES Posix - 1 = 63 \<and> GP_MAX_TMP_FILES Windows - 1 = 26 \<and>
   (reachable p w \<longrightarrow> tmpfile_num w \<le> GP_MAX_TMP_FILES p - 1) \<and>
   (tmpfile_num w = GP_MAX_TMP_FILES p - 1 \<longrightarrow>
      create_tmpfile p reply tmp s w =
        (Inl (GnuplotException (''Maximum number of temporary files reached ('' @
                decimal (nat (GP_MAX_TMP_FILES p)) @ ''): cannot open more files'' @ nl)),
         tmp, s, w)) \<and>
   (\<forall>name tmp' s' w'. create_tmpfile p reply tmp s w = (Inr name, tmp', s', w') \<longrightarrow>
      tmpfile_num w' = tmpfile_num w + 1)"
  using reachable_bound [of p w] create_tmpfile_quota [of w p reply tmp s]
  by (auto simp: GP_MAX_TMP_FILES_def dest: create_tmpfile_Inr)

theorem tmpfile_quota_witness:
  "reachable Posix world_full \<and> tmpfile_num world_full = 63 \<and>
   tmpfile_num world_full \<le> GP_MAX_TMP_FILES Posix - 1 \<and>
   create_tmpfile Posix reply_ok ofstream_new session_c world_full =
     (Inl (GnuplotException
            (''Maximum number of temporary files reached (64): cannot open more files'' @ nl)),
      ofstream_new, session_c, world_full) \<and>
   reachable Posix world_a \<and> tmpfile_num world_a = 0 \<and>
   fst (create_tmpfile Posix reply_ok ofstream_new session_a world_a) =
     Inr ''/tmp/gnuplotiCCCCCC'' \<and>
   tmpfile_num (snd (snd (snd (create_tmpfile Posix reply_ok ofstream_new session_a world_a))))
     = 1"
proof -
  have c63: "tmpfile_num world_full = 63" and c0: "tmpfile_num world_a = 0"
    by (simp_all add: world_full_def world_a_def)
  have m: "GP_MAX_TMP_FILES Posix = 64"
    by (simp add: GP_MAX_TMP_FILES_def)
  have r63: "reachable Posix world_full"
    using reachable_count [of 63 Posix world_full] c63 m by simp
  have r0: "reachable Posix world_a"
    using c0 by (rule reachable.start)
  have d: "decimal (nat 64) = ''64''"
    by (simp add: decimal.simps digit_def)
  have n: "fst (create_tmpfile Posix reply_ok ofstream_new session_a world_a) =
             Inr ''/tmp/gnuplotiCCCCCC''"
    by (simp add: create_tmpfile_def Let_def m c0 reply_ok_def unique_name_def
          name_template_def c_str_def ofstream_open_def ofstream_new_def bad_def
          split: prod.splits)
  have run: "create_tmpfile Posix reply_ok ofstream_new session_a world_a =
               (Inr ''/tmp/gnuplotiCCCCCC'',
                fst (snd (create_tmpfile Posix reply_ok ofstream_new session_a world_a)),
                fst (snd (snd (create_tmpfile Posix reply_ok ofstream_new session_a world_a))),
                snd (snd (snd (create_tmpfile Posix reply_ok ofstream_new session_a world_a))))"
    using n by (simp add: prod_eq_iff)
  have q: "create_tmpfile Posix reply_ok ofstream_new session_c world_full =
             (Inl (GnuplotException
                    (''Maximum number of temporary files reached (64): cannot open more files'' @
                     nl)),
              ofstream_new, session_c, world_full)"
    using tmpfile_quota [of Posix world_full reply_ok ofstream_new session_c] c63 m d
    by simp
  have "tmpfile_num
          (snd (snd (snd (create_tmpfile Posix reply_ok ofstream_new session_a world_a)))) =
        tmpfile_num world_a + 1"
    using tmpfile_quota [of Posix world_a reply_ok ofstream_new session_a] run
    by blast
  with c0 have i: "tmpfile_num
          (snd (snd (snd (create_tmpfile Posix reply_ok ofstream_new session_a world_a)))) = 1"
    by simp
  have b: "tmpfile_num world_full \<le> GP_MAX_TMP_FILES Posix - 1"
    using tmpfile_quota [of Posix world_full reply_ok ofstream_new session_c] r63
    by blast
  from r63 c63 b q r0 c0 n i show ?thesis
    by (intro conjI)
qed

text \<open>
  Claim C5 says that \<open>create_tmpfile\<close> throws when the file cannot be opened, with the
  list and the counter unchanged. The source tests \<open>tmp.bad()\<close> after \<open>tmp.open(name)\<close>,
  and a failed \<open>open\<close> sets \<open>failbit\<close>: the test does not see it. Here \<open>_mktemp\<close> makes a
  name and the file cannot be opened; the call returns the name, has appended it to the
  list and has raised the counter, and the stream is not open.
\<close>

theorem create_tmpfile_open_failure:
  "create_tmpfile Windows reply_no_open ofstream_new session_a world_a =
     (Inr ''gnuplotia01234'',
      ofstream_new\<lparr>failbit := True\<rparr>,
      session_a\<lparr>tmpfile_list := [''gnuplotia01234'']\<rparr>,
      world_a\<lparr>tmpfile_num := 1\<rparr>)"
  by (simp add: create_tmpfile_def reply_no_open_def ofstream_new_def session_a_def world_a_def
        GP_MAX_TMP_FILES_def unique_name_def name_template_def c_str_def unique_name_effect_def
        ofstream_open_def bad_def Let_def)

subsection \<open>Data plots that get their file\<close>

lemma writing_put: "writing name c tw \<Longrightarrow> writing name (c @ str) (ofstream_put str tw)"
  by (cases tw) (auto simp: writing_def ofstream_put_def split: option.splits)

lemma put_counter: "tmpfile_num (snd (ofstream_put str tw)) = tmpfile_num (snd tw)"
  by (cases tw) (auto simp: ofstream_put_def split: option.splits)

lemma writing_row:
  "writing name c tw \<Longrightarrow>
     writing name (c @ a @ '' '' @ b @ nl)
       (ofstream_flush (ofstream_put nl (ofstream_put b (ofstream_put '' '' (ofstream_put a tw)))))"
  using writing_put [of name "c @ a @ '' '' @ b" "ofstream_put b (ofstream_put '' '' (ofstream_put a tw))" nl]
        writing_put [of name "c @ a @ '' ''" "ofstream_put '' '' (ofstream_put a tw)" b]
        writing_put [of name "c @ a" "ofstream_put a tw" "'' ''"]
        writing_put [of name c tw a]
  by (simp add: ofstream_flush_def)

lemma writing_rows:
  "writing name c tw \<Longrightarrow>
     writing name (c @ concat (map (\<lambda>i. a i @ '' '' @ b i @ nl) js))
       (foldl (\<lambda>tw i. ofstream_flush (ofstream_put nl (ofstream_put (b i)
                 (ofstream_put '' '' (ofstream_put (a i) tw))))) tw js)"
proof (induction js arbitrary: c tw)
  case Nil
  then show ?case by simp
next
  case (Cons j js)
  from writing_row [OF Cons.prems, of "a j" "b j"]
  have "writing name (c @ a j @ '' '' @ b j @ nl)
          (ofstream_flush (ofstream_put nl (ofstream_put (b j)
             (ofstream_put '' '' (ofstream_put (a j) tw)))))" .
  from Cons.IH [OF this] show ?case by simp
qed

lemma rows_counter:
  "tmpfile_num (snd (foldl (\<lambda>tw i. ofstream_flush (ofstream_put nl (ofstream_put (b i)
                 (ofstream_put '' '' (ofstream_put (a i) tw))))) tw js)) = tmpfile_num (snd tw)"
  by (induction js arbitrary: tw) (simp_all add: ofstream_flush_def put_counter)

lemma create_tmpfile_writing:
  assumes "tmpfile_num w \<noteq> GP_MAX_TMP_FILES p - 1" and "mktemp_ok reply" and "open_ok reply"
    and "files w (unique_name p reply) = None"
  shows "\<exists>tmp' w'. create_tmpfile p reply ofstream_new s w =
           (Inr (unique_name p reply), tmp',
            s\<lparr>tmpfile_list := tmpfile_list s @ [unique_name p reply]\<rparr>, w') \<and>
           tmpfile_num w' = tmpfile_num w + 1 \<and>
           writing (unique_name p reply) [] (tmp', w')"
  using assms
  by (cases p)
     (simp_all add: create_tmpfile_def Let_def ofstream_open_def ofstream_new_def bad_def
        unique_name_effect_def writing_def fresh_file_def)

lemma c_str_idem: "c_str (c_str s) = c_str s"
  by (simp add: c_str_def takeWhile_idem)

lemma unique_name_c_str: "c_str (unique_name p reply) = unique_name p reply"
  by (simp add: unique_name_def c_str_idem)

lemma writing_close_available:
  assumes "writing name c tw" and "c_str name = name" and "ofstream_close tw = (tmp', w')"
  shows "file_available w' name = Inr True \<and> map_option content (files w' name) = Some c
         \<and> tmpfile_num w' = tmpfile_num (snd tw)"
  using assms
  by (cases tw)
     (auto simp: writing_def ofstream_close_def file_available_def file_exists_def c_access_def
           split: option.splits if_splits)

text \<open>
  A data plot that gets its file returns: the file holds one row per index and the
  two-column plot command has gone to \<open>cmd\<close>.
\<close>

lemma plot_xy_writes_and_plots:
  assumes "x \<noteq> []" and "length x = length y"
    and "tmpfile_num w \<noteq> GP_MAX_TMP_FILES p - 1" and "mktemp_ok reply" and "open_ok reply"
    and "files w (unique_name p reply) = None"
  shows "\<exists>w'. plot_xy out_x out_y p reply x y title s w =
           (Inr (),
            snd (plotfile_xy (unique_name p reply) 1 2 title
                   (s\<lparr>tmpfile_list := tmpfile_list s @ [unique_name p reply]\<rparr>) w'),
            w') \<and>
           file_available w' (unique_name p reply) = Inr True \<and>
           tmpfile_num w' = tmpfile_num w + 1 \<and>
           map_option content (files w' (unique_name p reply)) =
             Some (concat (map (\<lambda>i. out_x (x ! i) @ '' '' @ out_y (y ! i) @ nl)
                             [0..<length x]))"
proof -
  let ?n = "unique_name p reply"
  let ?s1 = "s\<lparr>tmpfile_list := tmpfile_list s @ [?n]\<rparr>"
  from create_tmpfile_writing [OF assms(3-6), of s] obtain tmp1 w1 where
    c: "create_tmpfile p reply ofstream_new s w = (Inr ?n, tmp1, ?s1, w1)"
    and n1: "tmpfile_num w1 = tmpfile_num w + 1"
    and g: "writing ?n [] (tmp1, w1)"
    by blast
  let ?loop = "foldl (\<lambda>tw i. ofstream_flush (ofstream_put nl (ofstream_put (out_y (y ! i))
                 (ofstream_put '' '' (ofstream_put (out_x (x ! i)) tw))))) (tmp1, w1) [0..<length x]"
  let ?rows = "concat (map (\<lambda>i. out_x (x ! i) @ '' '' @ out_y (y ! i) @ nl) [0..<length x])"
  have "writing ?n ([] @ ?rows) ?loop"
    using g by (rule writing_rows)
  then have wr: "writing ?n ([] @ ?rows) (ofstream_flush ?loop)"
    by (simp only: ofstream_flush_def)
  have lc: "tmpfile_num (snd (ofstream_flush ?loop)) = tmpfile_num w1"
    using rows_counter [where tw = "(tmp1, w1)" and js = "[0..<length x]" and
                              a = "\<lambda>i. out_x (x ! i)" and b = "\<lambda>i. out_y (y ! i)"]
    by (simp add: ofstream_flush_def)
  obtain tmp2 w2 where cl: "ofstream_close (ofstream_flush ?loop) = (tmp2, w2)"
    by (cases "ofstream_close (ofstream_flush ?loop)")
  from writing_close_available [OF wr unique_name_c_str cl] lc n1
  have av: "file_available w2 ?n = Inr True"
    and ct: "map_option content (files w2 ?n) = Some ?rows"
    and n2: "tmpfile_num w2 = tmpfile_num w + 1"
    by simp_all
  have y: "y \<noteq> []"
    using assms(1,2) by auto
  have f: "fst (plotfile_xy ?n 1 2 title ?s1 w2) = Inr ()"
    by (simp add: plotfile_xy_def av Let_def)
  have "plot_xy out_x out_y p reply x y title s w =
          (Inr (), snd (plotfile_xy ?n 1 2 title ?s1 w2), w2)"
    using assms(1,2) y c cl f
    by (auto simp: plot_xy_def unique_name_nonempty split: prod.splits)
  with av ct n2 show ?thesis
    by blast
qed

text \<open>
  The first end-to-end scenario of the specification: \<open>plot_xy([1,2,3],[4,5,6],"t")\<close> on
  a new session with the style \<open>lines\<close>.
\<close>

lemma decimal_digit: "n < 10 \<Longrightarrow> decimal n = [digit n]"
  by (subst decimal.simps) simp

lemma scenario_plot_xy:
  \<open>\<exists>w'. plot_xy decimal decimal Posix reply_ok [1, 2, 3] [4, 5, 6] ''t'' session_a world_a =
          (Inr (),
           session_a\<lparr>gnucmd := ''plot "/tmp/gnuplotiCCCCCC" using 1:2 title "t" with lines'' @ nl,
                      two_dim := True, nplots := 1,
                      tmpfile_list := [''/tmp/gnuplotiCCCCCC'']\<rparr>,
           w') \<and>
         tmpfile_num w' = 1 \<and>
         map_option content (files w' ''/tmp/gnuplotiCCCCCC'') =
           Some (''1 4'' @ nl @ ''2 5'' @ nl @ ''3 6'' @ nl)\<close>
proof -
  have n: "unique_name Posix reply_ok = ''/tmp/gnuplotiCCCCCC''"
    by (simp add: unique_name_def reply_ok_def name_template_def c_str_def)
  have d: "decimal (Suc 0) = ''1''" "decimal 1 = ''1''" "decimal 2 = ''2''" "decimal 3 = ''3''"
          "decimal 4 = ''4''" "decimal 5 = ''5''" "decimal 6 = ''6''"
    by (simp_all add: decimal_digit digit_def)
  have u: "[0..<length [1, 2, 3 :: nat]] = [0, 1, 2]"
    by (simp add: upt_rec)
  have rows: "concat (map (\<lambda>i. decimal ([1, 2, 3] ! i) @ '' '' @ decimal ([4, 5, 6] ! i) @ nl)
                 [0..<length [1, 2, 3 :: nat]]) = ''1 4'' @ nl @ ''2 5'' @ nl @ ''3 6'' @ nl"
    unfolding u by (simp add: d)
  have a: \<open>plotfile_xy ''/tmp/gnuplotiCCCCCC'' 1 2 ''t''
             (session_a\<lparr>tmpfile_list := tmpfile_list session_a @ [''/tmp/gnuplotiCCCCCC'']\<rparr>) w' =
           (Inr (), session_a\<lparr>gnucmd := ''plot "/tmp/gnuplotiCCCCCC" using 1:2 title "t" with lines'' @ nl,
                      two_dim := True, nplots := 1,
                      tmpfile_list := [''/tmp/gnuplotiCCCCCC'']\<rparr>)\<close>
    if "file_available w' ''/tmp/gnuplotiCCCCCC'' = Inr True" for w'
    using that unfolding plotfile_xy_def cmd_def str_find_iff_sublist
    by (simp add: Let_def session_a_def show_unsigned_def d dq_def
          nl_def c_str_def sublist_Cons_right)
  have p1: "[1, 2, 3 :: nat] \<noteq> []" and p2: "length [1, 2, 3 :: nat] = length [4, 5, 6 :: nat]"
    by simp_all
  have p3: "tmpfile_num world_a \<noteq> GP_MAX_TMP_FILES Posix - 1"
    by (simp add: world_a_def GP_MAX_TMP_FILES_def)
  have p4: "mktemp_ok reply_ok" and p5: "open_ok reply_ok"
    by (simp_all add: reply_ok_def)
  have p6: "files world_a (unique_name Posix reply_ok) = None"
    by (simp add: n world_a_def)
  have c0: "tmpfile_num world_a = 0" and l0: "tmpfile_list session_a = []"
    by (simp_all add: world_a_def session_a_def)
  from plot_xy_writes_and_plots
         [OF p1 p2 p3 p4 p5 p6, of decimal decimal "''t''" session_a, unfolded n rows c0]
  obtain w' where r:
    "plot_xy decimal decimal Posix reply_ok [1, 2, 3] [4, 5, 6] ''t'' session_a world_a =
       (Inr (), snd (plotfile_xy ''/tmp/gnuplotiCCCCCC'' 1 2 ''t''
          (session_a\<lparr>tmpfile_list := tmpfile_list session_a @ [''/tmp/gnuplotiCCCCCC'']\<rparr>) w'), w')"
    "file_available w' ''/tmp/gnuplotiCCCCCC'' = Inr True"
    "tmpfile_num w' = 0 + 1"
    "map_option content (files w' ''/tmp/gnuplotiCCCCCC'') =
       Some (''1 4'' @ nl @ ''2 5'' @ nl @ ''3 6'' @ nl)"
    by blast
  show ?thesis
    using r a [OF r(2)] by (intro exI [of _ w']) simp
qed

subsection \<open>Reading the data file back\<close>







subsection \<open>Whole numbers of at most six digits survive the text form\<close>







subsection \<open>The file of a data plot\<close>






lemma show_double_1234568: "show_double 1234568 = ''1.23457e+06''"
  by (simp add: show_double_def show_double_nat_def decimal.simps digit_def round_half_even_def
        strip_zeros_def Let_def)



text \<open>
  On POSIX \<open>mkstemp\<close> has made the file; when the stream cannot be opened on it, nothing
  reaches the file, and the plot command is sent all the same.
\<close>

lemma put_failed: "failbit tmp \<Longrightarrow> ofstream_put str (tmp, w) = (tmp, w)"
  by (simp add: ofstream_put_def)

lemma rows_failed:
  "failbit tmp \<Longrightarrow>
     foldl (\<lambda>tw i. ofstream_flush (ofstream_put nl (ofstream_put (b i)
              (ofstream_put '' '' (ofstream_put (a i) tw))))) (tmp, w) js = (tmp, w)"
  by (induction js) (simp_all add: ofstream_flush_def put_failed)

lemma plot_xy_unopened_posix:
  assumes "x \<noteq> []" and "length x = length y"
    and "tmpfile_num w \<noteq> GP_MAX_TMP_FILES Posix - 1" and "mktemp_ok reply"
    and "\<not> open_ok reply"
  shows "fst (plot_xy out_x out_y Posix reply x y title s w) = Inr () \<and>
         map_option content
           (files (snd (snd (plot_xy out_x out_y Posix reply x y title s w)))
              (unique_name Posix reply)) = Some [] \<and>
         tmpfile_list (fst (snd (plot_xy out_x out_y Posix reply x y title s w))) =
           tmpfile_list s @ [unique_name Posix reply]"
proof -
  let ?n = "unique_name Posix reply"
  let ?t = "ofstream_new\<lparr>failbit := True\<rparr>"
  let ?s1 = "s\<lparr>tmpfile_list := tmpfile_list s @ [?n]\<rparr>"
  let ?w1 = "w\<lparr>files := (files w)(?n \<mapsto> fresh_file), tmpfile_num := tmpfile_num w + 1\<rparr>"
  have c: "create_tmpfile Posix reply ofstream_new s w = (Inr ?n, ?t, ?s1, ?w1)"
    using assms(3-5)
    by (simp add: create_tmpfile_def Let_def ofstream_open_def ofstream_new_def bad_def
          unique_name_effect_def)
  have fb: "failbit ?t"
    by simp
  have loop: "foldl (\<lambda>tw i. ofstream_flush (ofstream_put nl (ofstream_put (out_y (y ! i))
                 (ofstream_put '' '' (ofstream_put (out_x (x ! i)) tw))))) (?t, ?w1)
                [0..<length x] = (?t, ?w1)"
    using fb by (rule rows_failed)
  have cl: "ofstream_close (ofstream_flush (?t, ?w1)) = (?t, ?w1)"
    by (simp add: ofstream_close_def ofstream_flush_def ofstream_new_def)
  have av: "file_available ?w1 ?n = Inr True"
    by (simp add: file_available_iff unique_name_c_str fresh_file_def)
  have y: "y \<noteq> []"
    using assms(1,2) by auto
  have f: "fst (plotfile_xy ?n 1 2 title ?s1 ?w1) = Inr ()"
    and l: "tmpfile_list (snd (plotfile_xy ?n 1 2 title ?s1 ?w1)) = tmpfile_list s @ [?n]"
    by (simp_all add: plotfile_xy_def av Let_def cmd_def)
  have "plot_xy out_x out_y Posix reply x y title s w =
          (fst (plotfile_xy ?n 1 2 title ?s1 ?w1), snd (plotfile_xy ?n 1 2 title ?s1 ?w1), ?w1)"
    using assms(1) y assms(2)
    by (simp add: plot_xy_def c unique_name_nonempty rows_failed [OF fb] cl case_prod_beta)
  with f l show ?thesis
    by (simp add: fresh_file_def)
qed

end
